theory Spec2Isabelle
  imports Main
begin

section \<open>JavaScript values\<close>

text \<open>
  The client is untyped JavaScript: what the backend sends back is whatever JSON it chose, and
  the code inspects it with property reads, optional chaining and truthiness tests. Payloads and
  component state are therefore values of one type \<open>jsval\<close>.

  Strings are HOL strings, read as sequences of code units in the range U+0000 .. U+00FF.
  The program never computes with a number; it tests one for truthiness and turns it into a
  string. A number \<open>n\<close> is therefore kept as these two observations: whether it is falsy
  (\<open>0\<close>, \<open>-0\<close> or \<open>NaN\<close>), and the string \<open>String(n)\<close>. An object is the list of its
  own properties after parsing, looked up by key.
\<close>

datatype jsval =
    JUndefined
  | JNull
  | JBool bool
  | JNum bool string
  | JStr string
  | JArr "jsval list"
  | JObj "(string \<times> jsval) list"

text \<open>\<open>Boolean(v)\<close>, the test made by \<open>if (v)\<close>, \<open>v || w\<close> and \<open>v && w\<close>.\<close>

fun truthy :: "jsval \<Rightarrow> bool" where
  "truthy JUndefined = False"
| "truthy JNull = False"
| "truthy (JBool b) = b"
| "truthy (JNum falsy shown) = (\<not> falsy)"
| "truthy (JStr s) = (s \<noteq> [])"
| "truthy (JArr xs) = True"
| "truthy (JObj fs) = True"

fun nullish :: "jsval \<Rightarrow> bool" where
  "nullish JUndefined = True"
| "nullish JNull = True"
| "nullish v = False"

text \<open>
  Reading property \<open>k\<close> of a value that is neither \<open>null\<close> nor \<open>undefined\<close>. The keys
  the program reads (\<open>access\<close>, \<open>refresh\<close>, \<open>message\<close>, \<open>uid\<close>, \<open>token\<close>, \<open>error\<close>)
  are neither own nor inherited properties of a primitive or of an array, so the read gives
  \<open>undefined\<close> on everything but an object that has the key.
\<close>

fun get_prop :: "jsval \<Rightarrow> string \<Rightarrow> jsval" where
  "get_prop (JObj fs) k = (case map_of fs k of Some v \<Rightarrow> v | None \<Rightarrow> JUndefined)"
| "get_prop v k = JUndefined"

text \<open>\<open>v.k\<close> raises a TypeError on \<open>null\<close> and \<open>undefined\<close>; \<open>v?.k\<close> gives \<open>undefined\<close> there.\<close>

datatype thrown = TypeError

definition member :: "jsval \<Rightarrow> string \<Rightarrow> thrown + jsval" where
  "member v k = (if nullish v then Inl TypeError else Inr (get_prop v k))"

definition opt_member :: "jsval \<Rightarrow> string \<Rightarrow> jsval" where
  "opt_member v k = (if nullish v then JUndefined else get_prop v k)"

text \<open>\<open>a || b\<close>\<close>

definition js_or :: "jsval \<Rightarrow> jsval \<Rightarrow> jsval" where
  "js_or a b = (if truthy a then a else b)"

subsection \<open>Strings\<close>

text \<open>
  \<open>String.prototype.trim\<close> strips white space and line terminators from both ends. Among the
  code units modelled these are TAB, LF, VT, FF, CR, SPACE and NBSP.
\<close>

definition is_ws :: "char \<Rightarrow> bool" where
  "is_ws c = (c \<in> set [CHR 0x09, CHR 0x0A, CHR 0x0B, CHR 0x0C, CHR 0x0D, CHR 0x20, CHR 0xA0])"

definition trim :: "string \<Rightarrow> string" where
  "trim s = rev (dropWhile is_ws (rev (dropWhile is_ws s)))"

text \<open>\<open>v.trim()\<close> on a state variable: only a string has the method.\<close>

fun call_trim :: "jsval \<Rightarrow> thrown + string" where
  "call_trim (JStr s) = Inr (trim s)"
| "call_trim v = Inl TypeError"

text \<open>
  \<open>String(v)\<close>, the coercion \<open>localStorage.setItem\<close> applies to the value it is given.
\<close>

fun join_comma :: "string list \<Rightarrow> string" where
  "join_comma [] = []"
| "join_comma [s] = s"
| "join_comma (s # t # ss) = s @ '','' @ join_comma (t # ss)"

fun to_string :: "jsval \<Rightarrow> string" where
  "to_string JUndefined = ''undefined''"
| "to_string JNull = ''null''"
| "to_string (JBool b) = (if b then ''true'' else ''false'')"
| "to_string (JNum falsy shown) = shown"
| "to_string (JStr s) = s"
| "to_string (JArr xs) = join_comma (map (\<lambda>x. if nullish x then [] else to_string x) xs)"
| "to_string (JObj fs) = ''[object Object]''"

section \<open>The session store: \<open>localStorage\<close>\<close>

text \<open>
  A key-value store of strings. \<open>getItem\<close> gives \<open>null\<close> (here \<open>None\<close>) for a key that has
  no entry; \<open>setItem\<close> stores the string form of its argument; \<open>removeItem\<close> of a key with
  no entry does nothing.
\<close>

type_synonym storage = "string \<rightharpoonup> string"

definition getItem :: "storage \<Rightarrow> string \<Rightarrow> string option" where
  "getItem store k = store k"

definition setItem :: "storage \<Rightarrow> string \<Rightarrow> jsval \<Rightarrow> storage" where
  "setItem store k v = store(k \<mapsto> to_string v)"

definition removeItem :: "storage \<Rightarrow> string \<Rightarrow> storage" where
  "removeItem store k = store(k := None)"

section \<open>The request gateway: \<open>Services/api.js\<close>\<close>

text \<open>
  An axios request configuration as the interceptor sees it, and a response. The instance is
  created with the single default header \<open>Content-Type: application/json\<close>; every call in the
  program is \<open>API.post(url, data)\<close> with no configuration of its own.
\<close>

record config =
  url :: string
  payload :: jsval
  headers :: "string \<rightharpoonup> string"

record response =
  status :: int
  data :: jsval

text \<open>
  What a rejected call carries: the error axios builds for a response outside 2xx (it holds
  that response), the one it builds when no response arrived (\<open>error.response\<close> is
  \<open>undefined\<close>), or an exception the JavaScript runtime threw inside a \<open>try\<close> block.
\<close>

datatype js_error =
    AxiosError "response option"
  | Thrown thrown

fun err_response :: "js_error \<Rightarrow> response option" where
  "err_response (AxiosError r) = r"
| "err_response (Thrown t) = None"

text \<open>
  The adapter: what the network and the backend answer to a dispatched request. Axios settles
  a response with a 2xx status as fulfilled and any other as rejected with an \<open>AxiosError\<close>
  that holds the response, so a 401 always arrives at the rejection handler.
\<close>

datatype outcome =
    Fulfilled response
  | Rejected js_error

type_synonym backend = "config \<Rightarrow> outcome"

definition default_headers :: "string \<rightharpoonup> string" where
  "default_headers = [''Content-Type'' \<mapsto> ''application/json'']"

text \<open>\<open>API.interceptors.request.use((config) => ...)\<close>\<close>

definition request_interceptor :: "storage \<Rightarrow> config \<Rightarrow> config" where
  "request_interceptor store cfg =
     (case getItem store ''access_token'' of
        None \<Rightarrow> cfg
      | Some t \<Rightarrow>
          if t \<noteq> [] then cfg\<lparr>headers := (headers cfg)(''Authorization'' \<mapsto> ''Bearer '' @ t)\<rparr>
          else cfg)"

text \<open>\<open>API.interceptors.response.use((response) => response, (error) => ...)\<close>\<close>

definition response_fulfilled :: "response \<Rightarrow> response" where
  "response_fulfilled r = r"

definition is_401 :: "js_error \<Rightarrow> bool" where
  "is_401 e = (case err_response e of None \<Rightarrow> False | Some r \<Rightarrow> status r = 401)"

definition response_rejected :: "storage \<Rightarrow> js_error \<Rightarrow> storage \<times> js_error" where
  "response_rejected store e =
     (if is_401 e
      then (removeItem (removeItem store ''access_token'') ''refresh_token'', e)
      else (store, e))"

text \<open>
  \<open>API.post(url, data)\<close>: the request interceptor, the adapter, the response interceptor.
  The result is the store afterwards, the requests that were dispatched, and the settled
  promise (\<open>Inl\<close> a rejection, \<open>Inr\<close> the response).
\<close>

definition dispatched :: "storage \<Rightarrow> string \<Rightarrow> jsval \<Rightarrow> config" where
  "dispatched store u d =
     request_interceptor store \<lparr>url = u, payload = d, headers = default_headers\<rparr>"

definition API_post ::
  "backend \<Rightarrow> storage \<Rightarrow> string \<Rightarrow> jsval \<Rightarrow> storage \<times> config list \<times> (js_error + response)" where
  "API_post be store u d =
     (let cfg = dispatched store u d in
      case be cfg of
        Fulfilled r \<Rightarrow> (store, [cfg], Inr (response_fulfilled r))
      | Rejected e \<Rightarrow>
          (let (store', e') = response_rejected store e in (store', [cfg], Inl e')))"

section \<open>What running an event handler leaves behind\<close>

text \<open>
  A handler runs to completion (the program has one submission in flight per form): the
  component state after its last \<open>set...\<close> call, the session store, the requests that went to
  the backend, the routes \<open>navigate\<close> was called with, and the timers \<open>setTimeout\<close> left
  pending, each a delay in milliseconds and the route it will navigate to.
\<close>

record 'st run =
  state :: 'st
  local_storage :: storage
  sent :: "config list"
  navigated :: "string list"
  timers :: "(nat \<times> string) list"

text \<open>\<open>err.response?.data?.error\<close>\<close>

definition err_message :: "js_error \<Rightarrow> jsval" where
  "err_message e =
     (case err_response e of None \<Rightarrow> JUndefined | Some r \<Rightarrow> opt_member (data r) ''error'')"

section \<open>The sign-in page: \<open>LoginPage\<close>\<close>

text \<open>
  The state variables \<open>username\<close>, \<open>password\<close>, \<open>token\<close>, \<open>error\<close> and \<open>isSubmitting\<close>.
  The first three are written only by the inputs' change events, with strings; \<open>error\<close>
  receives whatever the backend put under \<open>error\<close>.
\<close>

record login_state =
  username :: string
  login_password :: string
  login_token :: string
  login_error :: jsval
  isSubmitting :: bool

definition login_init :: login_state where
  "login_init =
     \<lparr>username = [], login_password = [], login_token = [], login_error = JStr [],
      isSubmitting = False\<rparr>"

definition login_payload :: "login_state \<Rightarrow> jsval" where
  "login_payload st =
     JObj ([(''username'', JStr (trim (username st))), (''password'', JStr (login_password st))] @
           (if trim (login_token st) \<noteq> [] then [(''token'', JStr (trim (login_token st)))] else []))"

text \<open>The \<open>catch\<close> block followed by \<open>finally\<close>.\<close>

definition login_catch :: "login_state \<Rightarrow> storage \<Rightarrow> config list \<Rightarrow> js_error \<Rightarrow> login_state run" where
  "login_catch st ls snt e =
     \<lparr>state = st\<lparr>login_error :=
                  js_or (err_message e) (JStr ''Login failed. Check your credentials and 2FA token.''),
                isSubmitting := False\<rparr>,
      local_storage = ls, sent = snt, navigated = [], timers = []\<rparr>"

definition handleLogin :: "backend \<Rightarrow> login_state \<Rightarrow> storage \<Rightarrow> login_state run" where
  "handleLogin be st ls =
     (let st1 = st\<lparr>isSubmitting := True, login_error := JStr []\<rparr>;
          (ls1, snt, res) = API_post be ls ''login/'' (login_payload st)
      in case res of
           Inl e \<Rightarrow> login_catch st1 ls1 snt e
         | Inr r \<Rightarrow>
             (case member (data r) ''access'' of
                Inl t \<Rightarrow> login_catch st1 ls1 snt (Thrown t)
              | Inr a \<Rightarrow>
                  (let ls2 = setItem ls1 ''access_token'' a;
                       ls3 = (if truthy (get_prop (data r) ''refresh'')
                              then setItem ls2 ''refresh_token'' (get_prop (data r) ''refresh'')
                              else ls2)
                   in \<lparr>state = st1\<lparr>isSubmitting := False\<rparr>, local_storage = ls3, sent = snt,
                       navigated = [''/dashboard''], timers = []\<rparr>)))"

section \<open>The password reset page: \<open>ForgotPassword\<close>\<close>

text \<open>
  \<open>URLSearchParams\<close>: the name-value pairs of the query string in order; \<open>get\<close> gives the
  value of the first pair with the name, or \<open>null\<close>.
\<close>

type_synonym query = "(string \<times> string) list"

definition query_get :: "query \<Rightarrow> string \<Rightarrow> string option" where
  "query_get q k = map_of q k"

text \<open>\<open>query.get(k) || ""\<close>\<close>

definition get_or_empty :: "query \<Rightarrow> string \<Rightarrow> string" where
  "get_or_empty q k = (case query_get q k of None \<Rightarrow> [] | Some v \<Rightarrow> if v \<noteq> [] then v else [])"

definition initUid :: "query \<Rightarrow> string" where
  "initUid q = get_or_empty q ''uid''"

definition initToken :: "query \<Rightarrow> string" where
  "initToken q = get_or_empty q ''token''"

text \<open>\<open>Boolean(initUid && initToken)\<close>\<close>

definition showConfirm :: "query \<Rightarrow> bool" where
  "showConfirm q = (initUid q \<noteq> [] \<and> initToken q \<noteq> [])"

text \<open>
  The state variables. \<open>email\<close>, \<open>password\<close> and \<open>confirm\<close> are written only by change
  events; \<open>uid\<close> and \<open>token\<close> also by \<open>submitRequest\<close>, with whatever truthy value the
  backend sent; the status and error variables with a literal or a backend value.
\<close>

record reset_state =
  email :: string
  requestStatus :: jsval
  requestError :: jsval
  isRequesting :: bool
  uid :: jsval
  token :: jsval
  password :: string
  confirm :: string
  confirmStatus :: jsval
  confirmError :: jsval
  isConfirming :: bool

definition reset_init :: "query \<Rightarrow> reset_state" where
  "reset_init q =
     \<lparr>email = [], requestStatus = JStr [], requestError = JStr [], isRequesting = False,
      uid = JStr (initUid q), token = JStr (initToken q), password = [], confirm = [],
      confirmStatus = JStr [], confirmError = JStr [], isConfirming = False\<rparr>"

text \<open>The effect that runs when \<open>showConfirm\<close> is set.\<close>

definition on_showConfirm :: "query \<Rightarrow> reset_state \<Rightarrow> reset_state" where
  "on_showConfirm q st =
     (if showConfirm q then st\<lparr>requestStatus := JStr [], requestError := JStr []\<rparr> else st)"

text \<open>The inputs' \<open>onChange\<close> handlers: \<open>e.target.value\<close> is a string.\<close>

datatype field = Email | Uid | Token | Password | Confirm

fun onChange :: "field \<Rightarrow> string \<Rightarrow> reset_state \<Rightarrow> reset_state" where
  "onChange Email v st = st\<lparr>email := v\<rparr>"
| "onChange Uid v st = st\<lparr>uid := JStr v\<rparr>"
| "onChange Token v st = st\<lparr>token := JStr v\<rparr>"
| "onChange Password v st = st\<lparr>password := v\<rparr>"
| "onChange Confirm v st = st\<lparr>confirm := v\<rparr>"

definition generic_request_status :: string where
  "generic_request_status = ''If an account exists for that email, a reset link will be sent.''"

text \<open>
  \<open>submitRequest\<close>. In \<open>if (data?.uid) setUid(data.uid)\<close> the plain read \<open>data.uid\<close> runs
  only where \<open>data?.uid\<close> was truthy, so \<open>data\<close> is not nullish there and nothing is thrown.
\<close>

definition submitRequest :: "backend \<Rightarrow> reset_state \<Rightarrow> storage \<Rightarrow> reset_state run" where
  "submitRequest be st ls =
     (let st1 = st\<lparr>isRequesting := True, requestError := JStr [], requestStatus := JStr []\<rparr>;
          (ls1, snt, res) =
             API_post be ls ''password-reset-request/'' (JObj [(''email'', JStr (trim (email st)))])
      in case res of
           Inl e \<Rightarrow>
             \<lparr>state = st1\<lparr>requestError := js_or (err_message e) (JStr ''Unable to submit request.''),
                          isRequesting := False\<rparr>,
              local_storage = ls1, sent = snt, navigated = [], timers = []\<rparr>
         | Inr r \<Rightarrow>
             (let d = data r;
                  st2 = st1\<lparr>requestStatus :=
                              js_or (opt_member d ''message'') (JStr generic_request_status)\<rparr>;
                  st3 = (if truthy (opt_member d ''uid'') then st2\<lparr>uid := get_prop d ''uid''\<rparr> else st2);
                  st4 = (if truthy (opt_member d ''token'') then st3\<lparr>token := get_prop d ''token''\<rparr>
                         else st3)
              in \<lparr>state = st4\<lparr>isRequesting := False\<rparr>, local_storage = ls1, sent = snt,
                  navigated = [], timers = []\<rparr>))"

text \<open>
  \<open>submitConfirm\<close>. The argument of \<open>API.post\<close> is built inside the \<open>try\<close> block, \<open>uid.trim()\<close>
  before \<open>token.trim()\<close>; a TypeError there goes to \<open>catch\<close> before anything is sent.
\<close>

definition confirm_catch :: "reset_state \<Rightarrow> storage \<Rightarrow> config list \<Rightarrow> js_error \<Rightarrow> reset_state run" where
  "confirm_catch st ls snt e =
     \<lparr>state = st\<lparr>confirmError := js_or (err_message e) (JStr ''Unable to reset password.''),
                isConfirming := False\<rparr>,
      local_storage = ls, sent = snt, navigated = [], timers = []\<rparr>"

definition submitConfirm :: "backend \<Rightarrow> reset_state \<Rightarrow> storage \<Rightarrow> reset_state run" where
  "submitConfirm be st ls =
     (let st1 = st\<lparr>isConfirming := True, confirmError := JStr [], confirmStatus := JStr []\<rparr> in
      if password st \<noteq> confirm st
      then \<lparr>state = st1\<lparr>confirmError := JStr ''Passwords do not match.'', isConfirming := False\<rparr>,
            local_storage = ls, sent = [], navigated = [], timers = []\<rparr>
      else
        (case call_trim (uid st) of
           Inl t \<Rightarrow> confirm_catch st1 ls [] (Thrown t)
         | Inr u \<Rightarrow>
             (case call_trim (token st) of
                Inl t \<Rightarrow> confirm_catch st1 ls [] (Thrown t)
              | Inr k \<Rightarrow>
                  (let (ls1, snt, res) =
                         API_post be ls ''password-reset-confirm/''
                           (JObj [(''uid'', JStr u), (''token'', JStr k),
                                  (''new_password'', JStr (password st))])
                   in case res of
                        Inl e \<Rightarrow> confirm_catch st1 ls1 snt e
                      | Inr r \<Rightarrow>
                          \<lparr>state = st1\<lparr>confirmStatus := JStr ''Password updated. You can now sign in.'',
                                       isConfirming := False\<rparr>,
                           local_storage = ls1, sent = snt, navigated = [],
                           timers = [(1200, ''/'')]\<rparr>))))"

subsection \<open>The rendered view\<close>

text \<open>
  The element tree the component returns, with the styling left out and the wrapping
  \<open>div\<close>s flattened. A form is named after its \<open>onSubmit\<close> handler. \<open>Paragraph v\<close> is
  the element \<open><p>{v}</p>\<close> and \<open>Value v\<close> the bare child \<open>{v}\<close>. The expression
  \<open>{v && <p>{v}</p>}\<close> is the paragraph when \<open>v\<close> is truthy and \<open>v\<close> itself when it is
  not.
\<close>

datatype form_id = RequestForm | ConfirmForm

datatype element =
    Heading string
  | Input string jsval
  | Button bool string
  | Paragraph jsval
  | Value jsval
  | Form form_id "element list"

definition para :: "jsval \<Rightarrow> element list" where
  "para v = (if truthy v then [Paragraph v] else [Value v])"

definition render :: "query \<Rightarrow> reset_state \<Rightarrow> element list" where
  "render q st =
     [Heading ''Password reset''] @
     (if \<not> showConfirm q
      then [Form RequestForm
              ([Input ''Your account email'' (JStr (email st)),
                Button (isRequesting st) (if isRequesting st then ''Submitting...'' else ''Send reset link'')] @
               para (requestStatus st) @ para (requestError st))]
      else []) @
     [Heading ''Set new password'',
      Form ConfirmForm
        ([Input ''UID'' (uid st),
          Input ''Token'' (token st),
          Input ''New password (min 8 chars)'' (JStr (password st)),
          Input ''Confirm new password'' (JStr (confirm st)),
          Button (isConfirming st) (if isConfirming st then ''Updating...'' else ''Update password'')] @
         para (confirmStatus st) @ para (confirmError st))]"

fun forms_shown :: "element list \<Rightarrow> form_id list" where
  "forms_shown [] = []"
| "forms_shown (Form f body # es) = f # forms_shown es"
| "forms_shown (e # es) = forms_shown es"

text \<open>The children of the paragraphs in the body of a form, in order.\<close>

fun form_body :: "form_id \<Rightarrow> element list \<Rightarrow> element list" where
  "form_body f [] = []"
| "form_body f (Form g body # es) = (if f = g then body else form_body f es)"
| "form_body f (e # es) = form_body f es"

fun paragraphs :: "element list \<Rightarrow> jsval list" where
  "paragraphs [] = []"
| "paragraphs (Paragraph v # es) = v # paragraphs es"
| "paragraphs (e # es) = paragraphs es"

definition messages :: "form_id \<Rightarrow> element list \<Rightarrow> jsval list" where
  "messages f es = paragraphs (form_body f es)"

text \<open>
  What React makes of a child when it puts the tree on display. A string or a number
  becomes text; a boolean, \<open>null\<close> and \<open>undefined\<close> become nothing; an array stands for
  its items; a plain object is refused: React throws, and as the application has no error
  boundary the whole view is taken down.
\<close>

fun valid_child :: "jsval \<Rightarrow> bool" where
  "valid_child (JObj fs) = False"
| "valid_child (JArr xs) = list_all valid_child xs"
| "valid_child v = True"

fun text_of :: "jsval \<Rightarrow> string" where
  "text_of (JStr s) = s"
| "text_of (JNum falsy shown) = shown"
| "text_of (JArr xs) = concat (map text_of xs)"
| "text_of v = []"

fun tree_ok :: "element list \<Rightarrow> bool" where
  "tree_ok [] = True"
| "tree_ok (Paragraph v # es) = (valid_child v \<and> tree_ok es)"
| "tree_ok (Value v # es) = (valid_child v \<and> tree_ok es)"
| "tree_ok (Form f body # es) = (tree_ok body \<and> tree_ok es)"
| "tree_ok (e # es) = tree_ok es"

text \<open>
  The text on display in a list of elements outside its inputs and buttons: the text of
  each paragraph (possibly empty) and of each bare child that has any.
\<close>

fun texts :: "element list \<Rightarrow> string list" where
  "texts [] = []"
| "texts (Paragraph v # es) = text_of v # texts es"
| "texts (Value v # es) = (if text_of v = [] then texts es else text_of v # texts es)"
| "texts (e # es) = texts es"

text \<open>
  What a form has on display: \<open>None\<close> when React threw on the tree and nothing is on
  display, the texts of the form's body otherwise.
\<close>

definition displayed :: "form_id \<Rightarrow> element list \<Rightarrow> string list option" where
  "displayed f es = (if tree_ok es then Some (texts (form_body f es)) else None)"

section \<open>A backend and sessions to run the handlers on\<close>

text \<open>
  A stand-in for the backend, used to run the handlers on concrete inputs: it accepts the
  password \<open>s3cret\<close> with an access token and no refresh token and answers any other login
  with 401, answers a reset request with a message and a \<open>uid\<close> but no \<open>token\<close>, and accepts
  a reset confirmation that carries the token \<open>tok-1\<close>.
\<close>

definition demo_backend :: backend where
  "demo_backend c =
     (if url c = ''login/'' then
        (if get_prop (payload c) ''password'' = JStr ''s3cret''
         then Fulfilled \<lparr>status = 200, data = JObj [(''access'', JStr ''A1'')]\<rparr>
         else Rejected (AxiosError (Some \<lparr>status = 401,
                 data = JObj [(''error'', JStr ''Invalid credentials'')]\<rparr>)))
      else if url c = ''password-reset-request/'' then
        Fulfilled \<lparr>status = 200,
                   data = JObj [(''message'', JStr ''Reset link sent.''), (''uid'', JStr ''MQ'')]\<rparr>
      else if url c = ''password-reset-confirm/'' then
        (if get_prop (payload c) ''token'' = JStr ''tok-1''
         then Fulfilled \<lparr>status = 200, data = JObj [(''message'', JStr ''Password has been reset.'')]\<rparr>
         else Rejected (AxiosError (Some \<lparr>status = 400,
                 data = JObj [(''error'', JStr ''Invalid or expired token.'')]\<rparr>)))
      else Rejected (AxiosError None))"

text \<open>A backend that cannot be reached: every request faults without a response.\<close>

definition offline_backend :: backend where
  "offline_backend c = Rejected (AxiosError None)"

text \<open>A backend that accepts everything with an empty body (\<open>204 No Content\<close>).\<close>

definition silent_backend :: backend where
  "silent_backend c = Fulfilled \<lparr>status = 204, data = JStr []\<rparr>"

text \<open>A backend whose \<open>message\<close> is an object, not a string.\<close>

definition structured_backend :: backend where
  "structured_backend c =
     Fulfilled \<lparr>status = 200, data = JObj [(''message'', JObj [(''detail'', JStr ''Sent.'')])]\<rparr>"

definition stored_session :: storage where
  "stored_session = [''access_token'' \<mapsto> ''A0'', ''refresh_token'' \<mapsto> ''R0'']"

definition alice_wrong :: login_state where
  "alice_wrong = login_init\<lparr>username := '' alice '', login_password := ''wrong'', login_token := ''  ''\<rparr>"

definition alice_right :: login_state where
  "alice_right = login_init\<lparr>username := ''alice'', login_password := ''s3cret'', login_token := '' 123456''\<rparr>"

text \<open>
  The reset page opened without a query string, its fields typed in by hand; the same with
  a confirmation that differs; the same with a token the backend does not know.
\<close>

definition reset_typed :: reset_state where
  "reset_typed =
     (reset_init [])\<lparr>email := '' bob@example.com '', uid := JStr '' MQ'', token := JStr ''tok-1'',
                      password := ''abc12345'', confirm := ''abc12345''\<rparr>"

definition reset_mismatch :: reset_state where
  "reset_mismatch = reset_typed\<lparr>confirm := ''abc999''\<rparr>"


section \<open>Trimming\<close>

text \<open>
  \<open>trim\<close> cuts a run of white space off each end and nothing else: the string is the white
  space cut off the front, the trimmed string, and the white space cut off the back; what is
  left neither starts nor ends with white space.
\<close>

lemma trim_decompose:
  "s = takeWhile is_ws s @ trim s @ rev (takeWhile is_ws (rev (dropWhile is_ws s)))"
proof -
  let ?a = "dropWhile is_ws s"
  have "rev (takeWhile is_ws (rev ?a) @ dropWhile is_ws (rev ?a)) = rev (rev ?a)"
    by (simp only: takeWhile_dropWhile_id)
  then have "trim s @ rev (takeWhile is_ws (rev ?a)) = ?a"
    by (simp only: rev_append rev_rev_ident trim_def)
  then have "takeWhile is_ws s @ trim s @ rev (takeWhile is_ws (rev ?a)) = takeWhile is_ws s @ ?a"
    by simp
  then show ?thesis
    by (simp only: takeWhile_dropWhile_id)
qed

lemma last_dropWhile_nonempty: "dropWhile P xs \<noteq> [] \<Longrightarrow> last (dropWhile P xs) = last xs"
  by (metis last_appendR takeWhile_dropWhile_id)

lemma trim_ends:
  assumes "trim s \<noteq> []"
  shows "\<not> is_ws (hd (trim s)) \<and> \<not> is_ws (last (trim s))"
proof -
  let ?a = "dropWhile is_ws s" and ?b = "dropWhile is_ws (rev (dropWhile is_ws s))"
  from assms have b: "?b \<noteq> []" by (simp add: trim_def)
  then have a: "?a \<noteq> []" by (cases "?a = []") simp_all
  from b have "\<not> is_ws (hd ?b)" by (rule hd_dropWhile)
  with b have 1: "\<not> is_ws (last (trim s))" by (simp add: trim_def last_rev)
  from b have "last ?b = last (rev ?a)" by (rule last_dropWhile_nonempty)
  with a have "last ?b = hd ?a" by (simp add: last_rev)
  moreover from a have "\<not> is_ws (hd ?a)" by (rule hd_dropWhile)
  ultimately have 2: "\<not> is_ws (hd (trim s))" using b by (simp add: trim_def hd_rev)
  from 1 2 show ?thesis by simp
qed

lemma trim_examples [simp]:
  "trim '' alice '' = ''alice''" "trim ''alice'' = ''alice''" "trim ''  '' = []"
  "trim '' 123456'' = ''123456''" "trim [] = []"
  "trim '' bob@example.com '' = ''bob@example.com''" "trim '' MQ'' = ''MQ''"
  "trim ''tok-1'' = ''tok-1''" "trim ''tok-0'' = ''tok-0''"
  by (simp_all add: trim_def is_ws_def)

section \<open>The gateway\<close>

lemma API_post_Fulfilled:
  "be (dispatched ls u d) = Fulfilled r \<Longrightarrow> API_post be ls u d = (ls, [dispatched ls u d], Inr r)"
  by (simp add: API_post_def response_fulfilled_def)

lemma API_post_Rejected:
  "be (dispatched ls u d) = Rejected e \<Longrightarrow>
   API_post be ls u d = (fst (response_rejected ls e), [dispatched ls u d], Inl e)"
  by (simp add: API_post_def response_rejected_def)

lemma API_post_sent: "fst (snd (API_post be ls u d)) = [dispatched ls u d]"
  by (cases "be (dispatched ls u d)") (simp_all add: API_post_Fulfilled API_post_Rejected)

lemma dispatched_url [simp]: "url (dispatched ls u d) = u"
  by (simp add: dispatched_def request_interceptor_def split: option.splits)

lemma dispatched_payload [simp]: "payload (dispatched ls u d) = d"
  by (simp add: dispatched_def request_interceptor_def split: option.splits)

lemma dispatched_headers:
  "headers (dispatched ls u d) =
     (case getItem ls ''access_token'' of
        None \<Rightarrow> default_headers
      | Some t \<Rightarrow>
          if t = [] then default_headers
          else default_headers(''Authorization'' \<mapsto> ''Bearer '' @ t))"
  by (simp add: dispatched_def request_interceptor_def split: option.splits)

lemma rejected_store:
  "fst (response_rejected ls e) =
     (if is_401 e then ls(''access_token'' := None, ''refresh_token'' := None) else ls)"
  by (simp add: response_rejected_def removeItem_def)

text \<open>
  C1. Whatever the endpoint and the payload, when the call is rejected with a response of
  status 401 (axios rejects every response outside 2xx) the response handler removes \<open>access_token\<close> and \<open>refresh_token\<close> from the
  store, leaves every other entry alone, and rejects with the very error it was given; the
  one request of the call is the only one dispatched (no retry, no refresh exchange).
\<close>

theorem unauthorized_response_clears_session:
  assumes "be (dispatched ls u d) = Rejected e"
    and "err_response e = Some r" and "status r = 401"
  shows "response_rejected ls e = (ls(''access_token'' := None, ''refresh_token'' := None), e) \<and>
         API_post be ls u d =
           (ls(''access_token'' := None, ''refresh_token'' := None), [dispatched ls u d], Inl e)"
  using assms by (simp add: API_post_Rejected response_rejected_def is_401_def removeItem_def)

theorem unauthorized_response_clears_session_witness:
  "demo_backend (dispatched stored_session ''login/'' (login_payload alice_wrong)) =
     Rejected (AxiosError (Some \<lparr>status = 401, data = JObj [(''error'', JStr ''Invalid credentials'')]\<rparr>)) \<and>
   getItem (fst (API_post demo_backend stored_session ''login/'' (login_payload alice_wrong)))
     ''access_token'' = None \<and>
   getItem (fst (API_post demo_backend stored_session ''login/'' (login_payload alice_wrong)))
     ''refresh_token'' = None \<and>
   snd (snd (API_post demo_backend stored_session ''login/'' (login_payload alice_wrong))) =
     Inl (AxiosError (Some \<lparr>status = 401, data = JObj [(''error'', JStr ''Invalid credentials'')]\<rparr>))"
proof -
  let ?r = "\<lparr>status = 401, data = JObj [(''error'', JStr ''Invalid credentials'')]\<rparr>"
  have h: "demo_backend (dispatched stored_session ''login/'' (login_payload alice_wrong)) =
             Rejected (AxiosError (Some ?r))"
    by (simp add: demo_backend_def login_payload_def alice_wrong_def login_init_def)
  from unauthorized_response_clears_session
         [of demo_backend stored_session "''login/''" "login_payload alice_wrong"
             "AxiosError (Some ?r)" ?r] h
  show ?thesis
    by (simp add: getItem_def)
qed

text \<open>
  C3. The one request a call dispatches carries \<open>Authorization: Bearer t\<close> when the store
  holds the access token \<open>t\<close>, and no \<open>Authorization\<close> header when it holds none. The test
  is \<open>if (token)\<close>: an entry that is the empty string is no token, and no header is attached
  for it. The URL and the payload go out as given.
\<close>

theorem dispatched_request_bearer_header:
  "map (\<lambda>c. headers c ''Authorization'') (fst (snd (API_post be ls u d))) =
     [case getItem ls ''access_token'' of
        None \<Rightarrow> None
      | Some t \<Rightarrow> if t = [] then None else Some (''Bearer '' @ t)] \<and>
   map url (fst (snd (API_post be ls u d))) = [u] \<and>
   map payload (fst (snd (API_post be ls u d))) = [d]"
  by (simp add: API_post_sent dispatched_headers default_headers_def split: option.splits)

theorem dispatched_request_bearer_header_witness:
  "map (\<lambda>c. headers c ''Authorization'')
     (fst (snd (API_post demo_backend stored_session ''login/'' JNull))) = [Some ''Bearer A0''] \<and>
   map (\<lambda>c. headers c ''Authorization'')
     (fst (snd (API_post demo_backend Map.empty ''login/'' JNull))) = [None]"
  using dispatched_request_bearer_header [of demo_backend stored_session "''login/''" JNull]
    dispatched_request_bearer_header [of demo_backend Map.empty "''login/''" JNull]
  by (simp add: getItem_def stored_session_def)

section \<open>Signing in\<close>

lemma handleLogin_Rejected:
  assumes "be (dispatched ls ''login/'' (login_payload st)) = Rejected e"
  shows "handleLogin be st ls =
           login_catch (st\<lparr>isSubmitting := True, login_error := JStr []\<rparr>)
             (fst (response_rejected ls e)) [dispatched ls ''login/'' (login_payload st)] e"
  using assms by (simp add: handleLogin_def API_post_Rejected)

lemma handleLogin_Fulfilled:
  assumes "be (dispatched ls ''login/'' (login_payload st)) = Fulfilled r"
  shows "handleLogin be st ls =
     (case member (data r) ''access'' of
        Inl t \<Rightarrow> login_catch (st\<lparr>isSubmitting := True, login_error := JStr []\<rparr>) ls
                   [dispatched ls ''login/'' (login_payload st)] (Thrown t)
      | Inr a \<Rightarrow>
          \<lparr>state = st\<lparr>isSubmitting := False, login_error := JStr []\<rparr>,
           local_storage =
             (if truthy (get_prop (data r) ''refresh'')
              then setItem (setItem ls ''access_token'' a) ''refresh_token''
                     (get_prop (data r) ''refresh'')
              else setItem ls ''access_token'' a),
           sent = [dispatched ls ''login/'' (login_payload st)],
           navigated = [''/dashboard''], timers = []\<rparr>)"
  using assms by (simp add: handleLogin_def API_post_Fulfilled Let_def split: sum.splits)

lemma demo_login_wrong:
  "demo_backend (dispatched ls ''login/'' (login_payload alice_wrong)) =
     Rejected (AxiosError (Some \<lparr>status = 401,
       data = JObj [(''error'', JStr ''Invalid credentials'')]\<rparr>))"
  by (simp add: demo_backend_def login_payload_def alice_wrong_def login_init_def)

lemma demo_login_right:
  "demo_backend (dispatched ls ''login/'' (login_payload alice_right)) =
     Fulfilled \<lparr>status = 200, data = JObj [(''access'', JStr ''A1'')]\<rparr>"
  by (simp add: demo_backend_def login_payload_def alice_right_def login_init_def)

lemma demo_wrong_run:
  "handleLogin demo_backend alice_wrong ls =
     login_catch (alice_wrong\<lparr>isSubmitting := True, login_error := JStr []\<rparr>)
       (fst (response_rejected ls (AxiosError (Some \<lparr>status = 401,
          data = JObj [(''error'', JStr ''Invalid credentials'')]\<rparr>))))
       [dispatched ls ''login/'' (login_payload alice_wrong)]
       (AxiosError (Some \<lparr>status = 401,
          data = JObj [(''error'', JStr ''Invalid credentials'')]\<rparr>))"
  by (rule handleLogin_Rejected) (rule demo_login_wrong)

lemma demo_right_run:
  "handleLogin demo_backend alice_right ls =
     \<lparr>state = alice_right\<lparr>isSubmitting := False, login_error := JStr []\<rparr>,
      local_storage = ls(''access_token'' \<mapsto> ''A1''),
      sent = [dispatched ls ''login/'' (login_payload alice_right)],
      navigated = [''/dashboard''], timers = []\<rparr>"
  using handleLogin_Fulfilled
    [of demo_backend ls alice_right "\<lparr>status = 200, data = JObj [(''access'', JStr ''A1'')]\<rparr>"]
  by (simp add: demo_login_right member_def setItem_def)

text \<open>
  C2, as the claim states it, fails: a user who holds a session and submits a wrong password
  gets a 401, and the response handler of the gateway removes the stored access token on
  the way to the \<open>catch\<close> block of \<open>handleLogin\<close>. The attempt fails (no navigation, the
  backend's message is displayed), and the store no longer holds what it held before.
\<close>

theorem failed_login_401_changes_store:
  "getItem stored_session ''access_token'' = Some ''A0'' \<and>
   navigated (handleLogin demo_backend alice_wrong stored_session) = [] \<and>
   login_error (state (handleLogin demo_backend alice_wrong stored_session)) =
     JStr ''Invalid credentials'' \<and>
   getItem (local_storage (handleLogin demo_backend alice_wrong stored_session))
     ''access_token'' = None \<and>
   local_storage (handleLogin demo_backend alice_wrong stored_session) \<noteq> stored_session"
proof -
  have a: "getItem stored_session ''access_token'' = Some ''A0''"
    by (simp add: getItem_def stored_session_def)
  have b: "getItem (local_storage (handleLogin demo_backend alice_wrong stored_session))
             ''access_token'' = None"
    by (simp add: demo_wrong_run login_catch_def rejected_store is_401_def getItem_def)
  have c: "local_storage (handleLogin demo_backend alice_wrong stored_session) \<noteq> stored_session"
    using a b by auto
  have d: "navigated (handleLogin demo_backend alice_wrong stored_session) = []"
    by (simp add: demo_wrong_run login_catch_def)
  have e: "login_error (state (handleLogin demo_backend alice_wrong stored_session)) =
             JStr ''Invalid credentials''"
    by (simp add: demo_wrong_run login_catch_def err_message_def opt_member_def js_or_def)
  from a b c d e show ?thesis by simp
qed

text \<open>
  C2, amended. When the backend rejects the login or the request faults, \<open>handleLogin\<close>
  itself writes nothing: the store it leaves is the store the gateway left. That store is
  the one before the attempt, except that after a response of status 401 the gateway's
  response handler has removed \<open>access_token\<close> and \<open>refresh_token\<close>.
\<close>

theorem failed_login_store_frame:
  assumes "be (dispatched ls ''login/'' (login_payload st)) = Rejected e"
  shows "local_storage (handleLogin be st ls) =
           fst (API_post be ls ''login/'' (login_payload st)) \<and>
         local_storage (handleLogin be st ls) =
           (if is_401 e then ls(''access_token'' := None, ''refresh_token'' := None) else ls) \<and>
         navigated (handleLogin be st ls) = []"
  using assms by (simp add: handleLogin_Rejected login_catch_def API_post_Rejected rejected_store)

theorem failed_login_store_frame_witness:
  "offline_backend (dispatched stored_session ''login/'' (login_payload alice_right)) =
     Rejected (AxiosError None) \<and>
   local_storage (handleLogin offline_backend alice_right stored_session) = stored_session \<and>
   demo_backend (dispatched stored_session ''login/'' (login_payload alice_wrong)) =
     Rejected (AxiosError (Some \<lparr>status = 401,
       data = JObj [(''error'', JStr ''Invalid credentials'')]\<rparr>)) \<and>
   local_storage (handleLogin demo_backend alice_wrong stored_session) =
     stored_session(''access_token'' := None, ''refresh_token'' := None)"
proof -
  have off: "offline_backend (dispatched stored_session ''login/'' (login_payload alice_right)) =
               Rejected (AxiosError None)"
    by (simp add: offline_backend_def)
  from failed_login_store_frame
         [of offline_backend stored_session alice_right "AxiosError None",
          THEN conjunct2, THEN conjunct1] off
  have 1: "local_storage (handleLogin offline_backend alice_right stored_session) = stored_session"
    by (simp add: is_401_def)
  from failed_login_store_frame
         [of demo_backend stored_session alice_wrong
             "AxiosError (Some \<lparr>status = 401,
                data = JObj [(''error'', JStr ''Invalid credentials'')]\<rparr>)",
          THEN conjunct2, THEN conjunct1]
       demo_login_wrong [of stored_session]
  have 2: "local_storage (handleLogin demo_backend alice_wrong stored_session) =
             stored_session(''access_token'' := None, ''refresh_token'' := None)"
    by (simp add: is_401_def)
  from off 1 2 demo_login_wrong [of stored_session] show ?thesis by simp
qed

text \<open>
  C4, as the claim states it, fails: the success path writes \<open>refresh_token\<close> only under
  \<open>if (data.refresh)\<close> and never removes it, so a refresh token stored before the attempt
  is still there after a login whose payload holds an access token alone.
\<close>

theorem access_only_login_keeps_stored_refresh:
  "getItem (local_storage (handleLogin demo_backend alice_right stored_session))
     ''access_token'' = Some ''A1'' \<and>
   getItem (local_storage (handleLogin demo_backend alice_right stored_session))
     ''refresh_token'' = Some ''R0''"
  by (simp add: demo_right_run getItem_def stored_session_def)

text \<open>
  C4, amended. After a login whose success payload holds the access token \<open>a\<close> and no
  refresh token, the store reports \<open>a\<close> as its access token and every other entry as it
  was: the refresh token is absent if it was absent before the attempt, and the one stored
  before otherwise.
\<close>

theorem access_only_login_store:
  assumes "be (dispatched ls ''login/'' (login_payload st)) = Fulfilled r"
    and "data r = JObj fs" and "map_of fs ''access'' = Some (JStr a)"
    and "map_of fs ''refresh'' = None"
  shows "local_storage (handleLogin be st ls) = ls(''access_token'' \<mapsto> a) \<and>
         getItem (local_storage (handleLogin be st ls)) ''access_token'' = Some a \<and>
         getItem (local_storage (handleLogin be st ls)) ''refresh_token'' =
           getItem ls ''refresh_token''"
  using assms by (simp add: handleLogin_Fulfilled member_def setItem_def getItem_def)

theorem access_only_login_store_witness:
  "demo_backend (dispatched Map.empty ''login/'' (login_payload alice_right)) =
     Fulfilled \<lparr>status = 200, data = JObj [(''access'', JStr ''A1'')]\<rparr> \<and>
   getItem (local_storage (handleLogin demo_backend alice_right Map.empty)) ''access_token'' =
     Some ''A1'' \<and>
   getItem (local_storage (handleLogin demo_backend alice_right Map.empty)) ''refresh_token'' =
     None"
  using access_only_login_store
          [of demo_backend Map.empty alice_right
              "\<lparr>status = 200, data = JObj [(''access'', JStr ''A1'')]\<rparr>"
              "[(''access'', JStr ''A1'')]" "''A1''"]
        demo_login_right [of Map.empty]
  by (simp add: getItem_def)

text \<open>
  C7. Every login submission sends one request, to \<open>login/\<close>, whose payload holds the
  trimmed username and the password as typed; it holds the trimmed second-factor code under
  \<open>token\<close> when that is not empty, and has no \<open>token\<close> key at all when it is.
\<close>

theorem login_payload_sent:
  "map url (sent (handleLogin be st ls)) = [''login/''] \<and>
   map payload (sent (handleLogin be st ls)) =
     [JObj ([(''username'', JStr (trim (username st))), (''password'', JStr (login_password st))] @
            (if trim (login_token st) = [] then []
             else [(''token'', JStr (trim (login_token st)))]))]"
proof (cases "be (dispatched ls ''login/'' (login_payload st))")
  case (Fulfilled r)
  then show ?thesis
    by (simp add: handleLogin_Fulfilled login_catch_def login_payload_def split: sum.splits)
next
  case (Rejected e)
  then show ?thesis
    by (simp add: handleLogin_Rejected login_catch_def login_payload_def)
qed

theorem login_payload_sent_witness:
  "map payload (sent (handleLogin demo_backend alice_right stored_session)) =
     [JObj [(''username'', JStr ''alice''), (''password'', JStr ''s3cret''),
            (''token'', JStr ''123456'')]] \<and>
   map payload (sent (handleLogin demo_backend alice_wrong stored_session)) =
     [JObj [(''username'', JStr ''alice''), (''password'', JStr ''wrong'')]]"
  using login_payload_sent [of demo_backend alice_right stored_session]
    login_payload_sent [of demo_backend alice_wrong stored_session]
  by (simp add: alice_right_def alice_wrong_def login_init_def)

section \<open>Resetting a password\<close>

subsection \<open>The view\<close>

lemma paragraphs_append [simp]: "paragraphs (xs @ ys) = paragraphs xs @ paragraphs ys"
  by (induction xs rule: paragraphs.induct) simp_all

lemma paragraphs_para [simp]: "paragraphs (para v) = (if truthy v then [v] else [])"
  by (simp add: para_def)

lemma messages_confirm:
  "messages ConfirmForm (render q st) =
     (if truthy (confirmStatus st) then [confirmStatus st] else []) @
     (if truthy (confirmError st) then [confirmError st] else [])"
  by (simp add: messages_def render_def)

lemma messages_request:
  "\<not> showConfirm q \<Longrightarrow> messages RequestForm (render q st) =
     (if truthy (requestStatus st) then [requestStatus st] else []) @
     (if truthy (requestError st) then [requestError st] else [])"
  by (simp add: messages_def render_def)

lemma tree_ok_append [simp]: "tree_ok (xs @ ys) = (tree_ok xs \<and> tree_ok ys)"
  by (induction xs rule: tree_ok.induct) simp_all

lemma texts_append [simp]: "texts (xs @ ys) = texts xs @ texts ys"
  by (induction xs rule: texts.induct) simp_all

lemma falsy_valid_child: "\<not> truthy v \<Longrightarrow> valid_child v"
  by (cases v) simp_all

lemma tree_ok_para [simp]: "tree_ok (para v) = valid_child v"
  by (simp add: para_def)

lemma tree_ok_render:
  "tree_ok (render q st) =
     ((showConfirm q \<or> (valid_child (requestStatus st) \<and> valid_child (requestError st))) \<and>
      valid_child (confirmStatus st) \<and> valid_child (confirmError st))"
  by (auto simp: render_def)

lemma texts_para_truthy: "truthy v \<Longrightarrow> texts (para v) = [text_of v]"
  by (simp add: para_def)

lemma texts_para_empty [simp]: "texts (para (JStr [])) = []"
  by (simp add: para_def)

lemma displayed_request:
  "\<not> showConfirm q \<Longrightarrow>
   displayed RequestForm (render q st) =
     (if tree_ok (render q st)
      then Some (texts (para (requestStatus st)) @ texts (para (requestError st)))
      else None)"
  by (simp add: displayed_def render_def)

text \<open>
  C5, as the claim states it, fails: the confirmation form is rendered unconditionally, so
  a URL that carries a \<open>uid\<close> but no \<open>token\<close> shows the request form and the confirmation
  form, not the request form alone.
\<close>

theorem reset_view_without_pair_shows_both_forms:
  "query_get [(''uid'', ''MQ'')] ''token'' = None \<and>
   forms_shown (render [(''uid'', ''MQ'')] (reset_init [(''uid'', ''MQ'')])) =
     [RequestForm, ConfirmForm] \<and>
   forms_shown (render [(''uid'', ''MQ'')] (reset_init [(''uid'', ''MQ'')])) \<noteq> [RequestForm]"
  by (simp add: query_get_def render_def showConfirm_def initUid_def initToken_def
      get_or_empty_def)

text \<open>
  C5, amended. When the entry URL carries both \<open>uid\<close> and \<open>token\<close>, non-empty, the view
  shows the confirmation form alone; when either is absent or empty it shows the request
  form followed by the confirmation form. This holds in every state of the component.
\<close>

theorem reset_view_forms:
  "(\<forall>u t. query_get q ''uid'' = Some u \<and> u \<noteq> [] \<and> query_get q ''token'' = Some t \<and> t \<noteq> [] \<longrightarrow>
      forms_shown (render q st) = [ConfirmForm]) \<and>
   (query_get q ''uid'' = None \<or> query_get q ''uid'' = Some [] \<or>
    query_get q ''token'' = None \<or> query_get q ''token'' = Some [] \<longrightarrow>
      forms_shown (render q st) = [RequestForm, ConfirmForm])"
  by (auto simp: render_def showConfirm_def initUid_def initToken_def get_or_empty_def)

theorem reset_view_forms_witness:
  "query_get [(''uid'', ''MQ''), (''token'', ''tok-1'')] ''uid'' = Some ''MQ'' \<and>
   query_get [(''uid'', ''MQ''), (''token'', ''tok-1'')] ''token'' = Some ''tok-1'' \<and>
   forms_shown (render [(''uid'', ''MQ''), (''token'', ''tok-1'')] reset_typed) = [ConfirmForm] \<and>
   query_get [(''uid'', ''MQ''), (''token'', [])] ''token'' = Some [] \<and>
   forms_shown (render [(''uid'', ''MQ''), (''token'', [])] reset_typed) =
     [RequestForm, ConfirmForm]"
  using reset_view_forms [of "[(''uid'', ''MQ''), (''token'', ''tok-1'')]" reset_typed]
    reset_view_forms [of "[(''uid'', ''MQ''), (''token'', [])]" reset_typed]
  by (simp add: query_get_def)

subsection \<open>Phase A: the request\<close>

lemma submitRequest_Fulfilled:
  assumes "be (dispatched ls ''password-reset-request/''
                 (JObj [(''email'', JStr (trim (email st)))])) = Fulfilled r"
  shows "submitRequest be st ls =
     \<lparr>state = st\<lparr>isRequesting := False, requestError := JStr [],
          requestStatus := js_or (opt_member (data r) ''message'') (JStr generic_request_status),
          uid := (if truthy (opt_member (data r) ''uid'') then get_prop (data r) ''uid'' else uid st),
          token := (if truthy (opt_member (data r) ''token'') then get_prop (data r) ''token''
                    else token st)\<rparr>,
      local_storage = ls,
      sent = [dispatched ls ''password-reset-request/'' (JObj [(''email'', JStr (trim (email st)))])],
      navigated = [], timers = []\<rparr>"
  using assms by (simp add: submitRequest_def API_post_Fulfilled Let_def)

lemma submitRequest_Rejected:
  assumes "be (dispatched ls ''password-reset-request/''
                 (JObj [(''email'', JStr (trim (email st)))])) = Rejected e"
  shows "submitRequest be st ls =
     \<lparr>state = st\<lparr>isRequesting := False,
          requestError := js_or (err_message e) (JStr ''Unable to submit request.''),
          requestStatus := JStr []\<rparr>,
      local_storage = fst (response_rejected ls e),
      sent = [dispatched ls ''password-reset-request/'' (JObj [(''email'', JStr (trim (email st)))])],
      navigated = [], timers = []\<rparr>"
  using assms by (simp add: submitRequest_def API_post_Rejected Let_def)

lemma submitRequest_sent:
  "sent (submitRequest be st ls) =
     [dispatched ls ''password-reset-request/'' (JObj [(''email'', JStr (trim (email st)))])]"
  by (cases "be (dispatched ls ''password-reset-request/''
                   (JObj [(''email'', JStr (trim (email st)))]))")
     (simp_all add: submitRequest_Fulfilled submitRequest_Rejected)

lemma demo_request_answer:
  "map demo_backend (sent (submitRequest demo_backend st ls)) =
     [Fulfilled \<lparr>status = 200,
        data = JObj [(''message'', JStr ''Reset link sent.''), (''uid'', JStr ''MQ'')]\<rparr>]"
  by (simp add: submitRequest_sent demo_backend_def)

lemma silent_request_answer:
  "map silent_backend (sent (submitRequest silent_backend st ls)) =
     [Fulfilled \<lparr>status = 204, data = JStr []\<rparr>]"
  by (simp add: submitRequest_sent silent_backend_def)

lemma structured_request_answer:
  "map structured_backend (sent (submitRequest structured_backend st ls)) =
     [Fulfilled \<lparr>status = 200, data = JObj [(''message'', JObj [(''detail'', JStr ''Sent.'')])]\<rparr>]"
  by (simp add: submitRequest_sent structured_backend_def)

lemma reset_typed_on_display: "\<not> showConfirm [] \<and> tree_ok (render [] reset_typed)"
  by (simp add: tree_ok_render showConfirm_def initUid_def get_or_empty_def query_get_def
      reset_typed_def reset_init_def)

text \<open>
  C8. Every reset-request submission sends one request, to \<open>password-reset-request/\<close>,
  whose payload is the trimmed email. When the backend accepts it, the status is the
  \<open>message\<close> of the payload when there is one (a truthy one: \<open>data?.message || ...\<close>),
  and the generic message otherwise. Where the request form is shown and the view was on
  display at the submission, that status is the one text the request form then displays,
  provided React can render it (a string always is); a message that is a plain object makes
  React throw, and nothing is displayed. A \<open>uid\<close> and a \<open>token\<close> that the payload includes
  (truthy again) become the values of the confirmation form's fields.
\<close>

theorem reset_request_submission:
  "map url (sent (submitRequest be st ls)) = [''password-reset-request/''] \<and>
   map payload (sent (submitRequest be st ls)) = [JObj [(''email'', JStr (trim (email st)))]] \<and>
   (\<forall>r. map be (sent (submitRequest be st ls)) = [Fulfilled r] \<longrightarrow>
      requestStatus (state (submitRequest be st ls)) =
        (if truthy (opt_member (data r) ''message'') then opt_member (data r) ''message''
         else JStr ''If an account exists for that email, a reset link will be sent.'') \<and>
      (\<not> showConfirm q \<and> tree_ok (render q st) \<longrightarrow>
         displayed RequestForm (render q (state (submitRequest be st ls))) =
           (if valid_child (requestStatus (state (submitRequest be st ls)))
            then Some [text_of (requestStatus (state (submitRequest be st ls)))]
            else None)) \<and>
      (truthy (opt_member (data r) ''uid'') \<longrightarrow>
         uid (state (submitRequest be st ls)) = opt_member (data r) ''uid'') \<and>
      (truthy (opt_member (data r) ''token'') \<longrightarrow>
         token (state (submitRequest be st ls)) = opt_member (data r) ''token''))"
proof -
  have shown: "displayed RequestForm (render q (state (submitRequest be st ls))) =
           (if valid_child (requestStatus (state (submitRequest be st ls)))
            then Some [text_of (requestStatus (state (submitRequest be st ls)))]
            else None)"
    if acc: "map be (sent (submitRequest be st ls)) = [Fulfilled r]"
      and vis: "\<not> showConfirm q" and ok: "tree_ok (render q st)" for r
  proof -
    from acc have run: "be (dispatched ls ''password-reset-request/''
                 (JObj [(''email'', JStr (trim (email st)))])) = Fulfilled r"
      by (simp add: submitRequest_sent)
    let ?st = "state (submitRequest be st ls)"
    from submitRequest_Fulfilled [of be ls st r] run
    have st: "requestError ?st = JStr []" "confirmStatus ?st = confirmStatus st"
      "confirmError ?st = confirmError st" "truthy (requestStatus ?st)"
      by (simp_all add: js_or_def generic_request_status_def)
    from ok vis st have "tree_ok (render q ?st) = valid_child (requestStatus ?st)"
      by (simp add: tree_ok_render)
    with vis st show ?thesis
      by (simp add: displayed_request texts_para_truthy)
  qed
  have rest: "map url (sent (submitRequest be st ls)) = [''password-reset-request/''] \<and>
   map payload (sent (submitRequest be st ls)) = [JObj [(''email'', JStr (trim (email st)))]] \<and>
   (\<forall>r. map be (sent (submitRequest be st ls)) = [Fulfilled r] \<longrightarrow>
      requestStatus (state (submitRequest be st ls)) =
        (if truthy (opt_member (data r) ''message'') then opt_member (data r) ''message''
         else JStr ''If an account exists for that email, a reset link will be sent.'') \<and>
      (truthy (opt_member (data r) ''uid'') \<longrightarrow>
         uid (state (submitRequest be st ls)) = opt_member (data r) ''uid'') \<and>
      (truthy (opt_member (data r) ''token'') \<longrightarrow>
         token (state (submitRequest be st ls)) = opt_member (data r) ''token''))"
    by (auto simp: submitRequest_sent submitRequest_Fulfilled js_or_def
        generic_request_status_def opt_member_def)
  from rest shown show ?thesis by simp
qed

theorem reset_request_submission_witness:
  "map payload (sent (submitRequest demo_backend reset_typed stored_session)) =
     [JObj [(''email'', JStr ''bob@example.com'')]] \<and>
   requestStatus (state (submitRequest demo_backend reset_typed stored_session)) =
     JStr ''Reset link sent.'' \<and>
   displayed RequestForm (render [] (state (submitRequest demo_backend reset_typed stored_session))) =
     Some [''Reset link sent.''] \<and>
   uid (state (submitRequest demo_backend reset_typed stored_session)) = JStr ''MQ'' \<and>
   displayed RequestForm (render [] (state (submitRequest silent_backend reset_typed stored_session))) =
     Some [''If an account exists for that email, a reset link will be sent.''] \<and>
   requestStatus (state (submitRequest structured_backend reset_typed stored_session)) =
     JObj [(''detail'', JStr ''Sent.'')] \<and>
   displayed RequestForm
     (render [] (state (submitRequest structured_backend reset_typed stored_session))) = None"
  using reset_request_submission [of demo_backend reset_typed stored_session "[]"]
    reset_request_submission [of silent_backend reset_typed stored_session "[]"]
    reset_request_submission [of structured_backend reset_typed stored_session "[]"]
    reset_typed_on_display
  by (simp add: demo_request_answer silent_request_answer structured_request_answer
      opt_member_def reset_typed_def reset_init_def)

text \<open>
  C10. When the backend accepts a reset request, each of the fields \<open>uid\<close> and \<open>token\<close>
  takes the value of the payload's field of that name if that is truthy, and keeps the
  value it had (from the URL or typed in) if the payload's field is absent, empty or
  otherwise falsy. The two fields are updated independently of each other.
\<close>

theorem reset_request_prefill_frame:
  assumes "map be (sent (submitRequest be st ls)) = [Fulfilled r]"
  shows "uid (state (submitRequest be st ls)) =
           (if truthy (opt_member (data r) ''uid'') then opt_member (data r) ''uid'' else uid st) \<and>
         token (state (submitRequest be st ls)) =
           (if truthy (opt_member (data r) ''token'') then opt_member (data r) ''token''
            else token st)"
  using assms by (auto simp: submitRequest_sent submitRequest_Fulfilled opt_member_def)

theorem reset_request_prefill_frame_witness:
  "map demo_backend (sent (submitRequest demo_backend reset_typed stored_session)) =
     [Fulfilled \<lparr>status = 200,
        data = JObj [(''message'', JStr ''Reset link sent.''), (''uid'', JStr ''MQ'')]\<rparr>] \<and>
   uid reset_typed = JStr '' MQ'' \<and>
   uid (state (submitRequest demo_backend reset_typed stored_session)) = JStr ''MQ'' \<and>
   token (state (submitRequest demo_backend reset_typed stored_session)) = JStr ''tok-1''"
  using reset_request_prefill_frame
          [of demo_backend reset_typed stored_session
              "\<lparr>status = 200,
                 data = JObj [(''message'', JStr ''Reset link sent.''), (''uid'', JStr ''MQ'')]\<rparr>"]
  by (simp add: demo_request_answer opt_member_def reset_typed_def reset_init_def)

subsection \<open>Phase B: the confirmation\<close>

lemma submitConfirm_mismatch:
  "password st \<noteq> confirm st \<Longrightarrow> submitConfirm be st ls =
     \<lparr>state = st\<lparr>isConfirming := False, confirmError := JStr ''Passwords do not match.'',
                  confirmStatus := JStr []\<rparr>,
      local_storage = ls, sent = [], navigated = [], timers = []\<rparr>"
  by (simp add: submitConfirm_def)



lemma submitConfirm_Accepted:
  assumes "password st = confirm st" and "uid st = JStr u" and "token st = JStr k"
    and "be (dispatched ls ''password-reset-confirm/''
               (JObj [(''uid'', JStr (trim u)), (''token'', JStr (trim k)),
                      (''new_password'', JStr (password st))])) = Fulfilled r"
  shows "submitConfirm be st ls =
           \<lparr>state = st\<lparr>isConfirming := False, confirmError := JStr [],
                        confirmStatus := JStr ''Password updated. You can now sign in.''\<rparr>,
            local_storage = ls,
            sent = [dispatched ls ''password-reset-confirm/''
                      (JObj [(''uid'', JStr (trim u)), (''token'', JStr (trim k)),
                             (''new_password'', JStr (password st))])],
            navigated = [], timers = [(1200, ''/'')]\<rparr>"
  using assms by (simp add: submitConfirm_def API_post_Fulfilled)



lemma demo_confirm_typed:
  "submitConfirm demo_backend reset_typed ls =
     \<lparr>state = reset_typed\<lparr>isConfirming := False, confirmError := JStr [],
                confirmStatus := JStr ''Password updated. You can now sign in.''\<rparr>,
      local_storage = ls,
      sent = [dispatched ls ''password-reset-confirm/''
                (JObj [(''uid'', JStr ''MQ''), (''token'', JStr ''tok-1''),
                       (''new_password'', JStr ''abc12345'')])],
      navigated = [], timers = [(1200, ''/'')]\<rparr>"
  using submitConfirm_Accepted
          [of reset_typed "'' MQ''" "''tok-1''" demo_backend ls
              "\<lparr>status = 200, data = JObj [(''message'', JStr ''Password has been reset.'')]\<rparr>"]
  by (simp add: demo_backend_def reset_typed_def reset_init_def)


text \<open>
  C6. A confirmation whose two passwords differ sends nothing, leaves
  \<open>Passwords do not match.\<close> as the error, the only message its form displays, and ends
  with the pending flag cleared. Whenever a request was sent, the two passwords were equal.
\<close>

theorem password_mismatch_fails_fast:
  "(password st \<noteq> confirm st \<longrightarrow>
      sent (submitConfirm be st ls) = [] \<and>
      confirmError (state (submitConfirm be st ls)) = JStr ''Passwords do not match.'' \<and>
      messages ConfirmForm (render q (state (submitConfirm be st ls))) =
        [JStr ''Passwords do not match.''] \<and>
      isConfirming (state (submitConfirm be st ls)) = False) \<and>
   (sent (submitConfirm be st ls) \<noteq> [] \<longrightarrow> password st = confirm st)"
  by (cases "password st = confirm st") (simp_all add: submitConfirm_mismatch messages_confirm)

theorem password_mismatch_fails_fast_witness:
  "password reset_mismatch = ''abc12345'' \<and> confirm reset_mismatch = ''abc999'' \<and>
   sent (submitConfirm demo_backend reset_mismatch stored_session) = [] \<and>
   messages ConfirmForm (render [] (state (submitConfirm demo_backend reset_mismatch stored_session))) =
     [JStr ''Passwords do not match.''] \<and>
   isConfirming (state (submitConfirm demo_backend reset_mismatch stored_session)) = False \<and>
   sent (submitConfirm demo_backend reset_typed stored_session) \<noteq> [] \<and>
   password reset_typed = confirm reset_typed"
proof -
  have a: "password reset_mismatch = ''abc12345'' \<and> confirm reset_mismatch = ''abc999''"
    by (simp add: reset_mismatch_def reset_typed_def reset_init_def)
  have b: "sent (submitConfirm demo_backend reset_typed stored_session) \<noteq> []"
    by (simp add: demo_confirm_typed)
  from password_mismatch_fails_fast [of reset_mismatch demo_backend stored_session "[]"] a
  have c: "sent (submitConfirm demo_backend reset_mismatch stored_session) = [] \<and>
      messages ConfirmForm
        (render [] (state (submitConfirm demo_backend reset_mismatch stored_session))) =
        [JStr ''Passwords do not match.''] \<and>
      isConfirming (state (submitConfirm demo_backend reset_mismatch stored_session)) = False"
    by simp
  from password_mismatch_fails_fast [of reset_typed demo_backend stored_session "[]"] b
  have d: "password reset_typed = confirm reset_typed"
    by blast
  from a b c d show ?thesis by simp
qed



end
